theory Spec2Isabelle
  imports Main "HOL-Library.Word"
begin

section \<open>Data model of trezorlib/stellar.py\<close>

type_synonym bytes = "8 word list"

text \<open>
  Python exceptions as values. \<open>TrezorException\<close>, \<open>ValueError\<close> and \<open>RuntimeError\<close> are
  the classes the module raises itself; \<open>IndexError\<close> is what \<open>list.pop\<close> raises on an
  empty list; \<open>OtherException cls msg\<close> is an exception of any other class (a transport
  fault, a cancellation, ...), none of them a subclass of \<open>IndexError\<close>.
\<close>

datatype exn =
    TrezorException string
  | IndexError string
  | ValueError string
  | RuntimeError string
  | UnicodeDecodeError string
  | OtherException string string

text \<open>\<open>except IndexError\<close>: the handler's \<open>isinstance\<close> test.\<close>

fun is_IndexError :: "exn \<Rightarrow> bool" where
  "is_IndexError (IndexError _) = True"
| "is_IndexError _ = False"

text \<open>
  \<open>messages.StellarSignTx\<close>: the transaction header. Every scalar protobuf field is
  optional (\<open>None\<close> until assigned); the repeated field \<open>address_n\<close> is a list.
\<close>

record StellarSignTx =
  address_n :: "int list"
  network_passphrase :: "string option"
  source_account :: "string option"
  fee :: "int option"
  sequence_number :: "int option"
  timebounds_start :: "int option"
  timebounds_end :: "int option"
  memo_type :: "int option"
  memo_text :: "string option"
  memo_id :: "int option"
  memo_hash :: "bytes option"
  num_operations :: "int option"

text \<open>\<open>messages.StellarAssetType(type, code, issuer)\<close>.\<close>

datatype StellarAssetType =
  StellarAssetType "int option" "string option" "string option"

text \<open>
  The protobuf message objects that travel through \<open>client.call\<close>. The arguments of each
  operation message are its keyword fields in the order the source writes them:
  \<^item> \<open>StellarCreateAccountOp\<close>: source_account, new_account, starting_balance
  \<^item> \<open>StellarPaymentOp\<close>: source_account, destination_account, asset, amount
  \<^item> \<open>StellarPathPaymentOp\<close>: source_account, send_asset, send_max, destination_account,
    destination_asset, destination_amount, paths
  \<^item> \<open>StellarManageOfferOp\<close>: source_account, selling_asset, buying_asset, amount,
    price_n, price_d, offer_id
  \<^item> \<open>StellarCreatePassiveOfferOp\<close>: source_account, selling_asset, buying_asset, amount,
    price_n, price_d
  \<^item> \<open>StellarSetOptionsOp\<close>: source_account, inflation_destination_account, clear_flags,
    set_flags, master_weight, low_threshold, medium_threshold, high_threshold,
    home_domain, signer_type, signer_key, signer_weight
  \<^item> \<open>StellarChangeTrustOp\<close>: source_account, asset, limit
  \<^item> \<open>StellarAllowTrustOp\<close>: source_account, trusted_account, asset_type, asset_code,
    is_authorized
  \<^item> \<open>StellarAccountMergeOp\<close>: source_account, destination_account
  \<^item> \<open>StellarManageDataOp\<close>: source_account, key, value
  \<^item> \<open>StellarBumpSequenceOp\<close>: source_account, bump_to
  \<^item> \<open>StellarSignedTx\<close>: public_key, signature
  \<^item> \<open>OtherMessage cls\<close>: a message of any other class, with its class name.
\<close>

datatype message =
    StellarSignTx StellarSignTx
  | StellarTxOpRequest
  | StellarSignedTx "bytes option" "bytes option"
  | StellarCreateAccountOp "string option" "string option" "int option"
  | StellarPaymentOp "string option" "string option" "StellarAssetType option" "int option"
  | StellarPathPaymentOp "string option" "StellarAssetType option" "int option"
      "string option" "StellarAssetType option" "int option" "StellarAssetType list"
  | StellarManageOfferOp "string option" "StellarAssetType option" "StellarAssetType option"
      "int option" "int option" "int option" "int option"
  | StellarCreatePassiveOfferOp "string option" "StellarAssetType option"
      "StellarAssetType option" "int option" "int option" "int option"
  | StellarSetOptionsOp "string option" "string option" "int option" "int option"
      "int option" "int option" "int option" "int option" "string option"
      "int option" "bytes option" "int option"
  | StellarChangeTrustOp "string option" "StellarAssetType option" "int option"
  | StellarAllowTrustOp "string option" "string option" "int option" "string option"
      "int option"
  | StellarAccountMergeOp "string option" "string option"
  | StellarManageDataOp "string option" "string option" "bytes option"
  | StellarBumpSequenceOp "string option" "int option"
  | OtherMessage string

text \<open>\<open>isinstance(resp, messages.StellarTxOpRequest)\<close>\<close>

fun is_StellarTxOpRequest :: "message \<Rightarrow> bool" where
  "is_StellarTxOpRequest StellarTxOpRequest = True"
| "is_StellarTxOpRequest _ = False"

text \<open>\<open>isinstance(resp, messages.StellarSignedTx)\<close>\<close>

fun is_StellarSignedTx :: "message \<Rightarrow> bool" where
  "is_StellarSignedTx (StellarSignedTx _ _) = True"
| "is_StellarSignedTx _ = False"

text \<open>\<open>resp.__class__.__name__\<close>\<close>

fun class_name :: "message \<Rightarrow> string" where
  "class_name (StellarSignTx _) = ''StellarSignTx''"
| "class_name StellarTxOpRequest = ''StellarTxOpRequest''"
| "class_name (StellarSignedTx _ _) = ''StellarSignedTx''"
| "class_name (StellarCreateAccountOp _ _ _) = ''StellarCreateAccountOp''"
| "class_name (StellarPaymentOp _ _ _ _) = ''StellarPaymentOp''"
| "class_name (StellarPathPaymentOp _ _ _ _ _ _ _) = ''StellarPathPaymentOp''"
| "class_name (StellarManageOfferOp _ _ _ _ _ _ _) = ''StellarManageOfferOp''"
| "class_name (StellarCreatePassiveOfferOp _ _ _ _ _ _) = ''StellarCreatePassiveOfferOp''"
| "class_name (StellarSetOptionsOp _ _ _ _ _ _ _ _ _ _ _ _) = ''StellarSetOptionsOp''"
| "class_name (StellarChangeTrustOp _ _ _) = ''StellarChangeTrustOp''"
| "class_name (StellarAllowTrustOp _ _ _ _ _) = ''StellarAllowTrustOp''"
| "class_name (StellarAccountMergeOp _ _) = ''StellarAccountMergeOp''"
| "class_name (StellarManageDataOp _ _ _) = ''StellarManageDataOp''"
| "class_name (StellarBumpSequenceOp _ _) = ''StellarBumpSequenceOp''"
| "class_name (OtherMessage cls) = cls"

section \<open>The client\<close>

text \<open>
  \<open>client.call(msg)\<close> sends one message and blocks for one response: it either returns a
  message or raises. The client is a parameter of \<open>sign_tx\<close>; it is modelled as a state
  \<open>'d\<close> (device and transport together) with a transition function. The client is taken
  not to mutate the header or the operations list it is handed.
\<close>

type_synonym outcome = "exn + message"

type_synonym 'd client_call = "'d \<Rightarrow> message \<Rightarrow> outcome \<times> 'd"

section \<open>sign_tx\<close>

definition DEFAULT_NETWORK_PASSPHRASE :: string where
  "DEFAULT_NETWORK_PASSPHRASE = ''Public Global Stellar Network ; September 2015''"

text \<open>
  The \<open>while\<close> loop of \<open>sign_tx\<close> (lines 281-282), with the exception that leaves it, if
  any, not yet handled:
  \<^verbatim>\<open>
      while isinstance(resp, messages.StellarTxOpRequest):
          resp = client.call(operations.pop(0))
  \<close>
  It returns what ended it (an exception or the first response that is not a
  \<open>StellarTxOpRequest\<close>), the client and what is left of the operations list.
\<close>

fun signing_loop ::
  "'d client_call \<Rightarrow> 'd \<Rightarrow> message \<Rightarrow> message list \<Rightarrow> outcome \<times> 'd \<times> message list"
where
  "signing_loop call client resp [] =
     (if is_StellarTxOpRequest resp
      then (Inl (IndexError ''pop from empty list''), client, [])
      else (Inr resp, client, []))"
| "signing_loop call client resp (operation # operations) =
     (if is_StellarTxOpRequest resp
      then (case call client operation of
              (Inl e, client') \<Rightarrow> (Inl e, client', operations)
            | (Inr resp', client') \<Rightarrow> signing_loop call client' resp' operations)
      else (Inr resp, client, operation # operations))"

text \<open>
  What the caller observes after \<open>sign_tx\<close>: the value returned or the exception raised,
  and the objects the call mutated in place (the header, the operations list, the client).
\<close>

record 'd sign_tx_result =
  result :: outcome
  tx_after :: StellarSignTx
  operations_after :: "message list"
  client_after :: 'd

definition sign_tx ::
  "'d client_call \<Rightarrow> 'd \<Rightarrow> StellarSignTx \<Rightarrow> message list \<Rightarrow> int list \<Rightarrow> string option
     \<Rightarrow> 'd sign_tx_result"
where
  "sign_tx call client tx operations addr_n passphrase =
     (let tx = tx\<lparr>network_passphrase := passphrase\<rparr>;
          tx = tx\<lparr>address_n := addr_n\<rparr>;
          tx = tx\<lparr>num_operations := Some (int (length operations))\<rparr>
      in case call client (StellarSignTx tx) of
           (Inl e, client) \<Rightarrow>
             \<lparr>result = Inl e, tx_after = tx, operations_after = operations,
              client_after = client\<rparr>
         | (Inr resp, client) \<Rightarrow>
             (case signing_loop call client resp operations of
                (Inl e, client, operations) \<Rightarrow>
                  \<lparr>result =
                     (if is_IndexError e
                      then Inl (TrezorException
                                  ''Reached end of operations without a signature.'')
                      else Inl e),
                   tx_after = tx, operations_after = operations, client_after = client\<rparr>
              | (Inr resp, client, operations) \<Rightarrow>
                  \<lparr>result =
                     (if \<not> is_StellarSignedTx resp
                      then Inl (TrezorException
                                  (''Unexpected message: '' @ class_name resp))
                      else if operations \<noteq> []
                      then Inl (TrezorException
                                  ''Received a signature before processing all operations.'')
                      else Inr resp),
                   tx_after = tx, operations_after = operations, client_after = client\<rparr>))"

section \<open>Observing a run\<close>

text \<open>
  \<open>responses call client msgs\<close>: what the client answers when \<open>msgs\<close> are sent to it one
  after the other.
\<close>

fun responses :: "'d client_call \<Rightarrow> 'd \<Rightarrow> message list \<Rightarrow> outcome list" where
  "responses call client [] = []"
| "responses call client (m # ms) =
     (case call client m of (r, client') \<Rightarrow> r # responses call client' ms)"

text \<open>
  A recording client: it behaves as \<open>call\<close> does and appends every exchange (the message
  sent, the outcome received) to a log kept beside the client's own state.
\<close>

type_synonym exchange_log = "(message \<times> outcome) list"

definition recording :: "'d client_call \<Rightarrow> ('d \<times> exchange_log) client_call" where
  "recording call = (\<lambda>(client, log) m.
     case call client m of (r, client') \<Rightarrow> (r, (client', log @ [(m, r)])))"

text \<open>
  A scripted client for concrete runs: it answers with the next entry of its script,
  whatever it is sent, and raises once the script is used up.
\<close>

definition scripted :: "outcome list client_call" where
  "scripted script m =
     (case script of
        [] \<Rightarrow> (Inl (OtherException ''EOFError'' ''no response''), [])
      | r # rest \<Rightarrow> (r, rest))"

section \<open>from_envelope\<close>

subsection \<open>The stellar_sdk objects the converter reads\<close>

text \<open>
  The classes of the third-party \<open>stellar_sdk\<close>, with the attributes the source reads, in
  this order:
  \<^item> \<open>MuxedAccount\<close>: account_id
  \<^item> \<open>Asset\<close>: code, issuer
  \<^item> \<open>Price\<close>: n, d
  \<^item> \<open>SignerKey\<close> (\<open>signer.signer_key.signer_key\<close>): type, and the \<open>uint256\<close> of the arm
    that the type selects
  \<^item> \<open>Signer\<close>: signer_key, weight
  \<^item> \<open>TimeBounds\<close>: min_time, max_time
  \<^item> \<open>Transaction\<close>: source, fee, sequence, time_bounds, memo, operations
  \<^item> \<open>TransactionEnvelope\<close>: transaction
\<close>

datatype MuxedAccount = MuxedAccount string

datatype Asset = Asset string "string option"

datatype Price = Price int int

text \<open>The \<open>price\<close> of an offer: \<open>Union[Price, str, Decimal]\<close>.\<close>

datatype price_arg = Price_object Price | Raw_price string

datatype SignerKeyType =
    SIGNER_KEY_TYPE_ED25519
  | SIGNER_KEY_TYPE_PRE_AUTH_TX
  | SIGNER_KEY_TYPE_HASH_X
  | SIGNER_KEY_TYPE_other string

datatype SignerKey = SignerKey SignerKeyType bytes

datatype Signer = Signer SignerKey int

datatype TrustLineEntryFlag =
    UNAUTHORIZED_FLAG
  | AUTHORIZED_FLAG
  | AUTHORIZED_TO_MAINTAIN_LIABILITIES_FLAG

text \<open>
  The operation classes, each with \<open>source\<close> first and then the attributes the source
  reads:
  \<^item> \<open>CreateAccount\<close>: destination, starting_balance
  \<^item> \<open>Payment\<close>: destination, asset, amount
  \<^item> \<open>PathPaymentStrictReceive\<close>: destination, send_asset, send_max, dest_asset,
    dest_amount, path
  \<^item> \<open>ManageSellOffer\<close>: selling, buying, amount, price, offer_id
  \<^item> \<open>CreatePassiveSellOffer\<close>: selling, buying, amount, price
  \<^item> \<open>SetOptions\<close>: inflation_dest, clear_flags, set_flags, master_weight, low_threshold,
    med_threshold, high_threshold, home_domain, signer
  \<^item> \<open>ChangeTrust\<close>: asset, limit
  \<^item> \<open>AllowTrust\<close>: trustor, asset_code, authorize
  \<^item> \<open>AccountMerge\<close>: destination
  \<^item> \<open>ManageData\<close>: data_name, data_value
  \<^item> \<open>BumpSequence\<close>: bump_to
  \<^item> \<open>OtherOperation\<close>: an operation of any other class (\<open>Inflation\<close>, ...), with its
    class name.
\<close>

datatype Operation =
    CreateAccount "MuxedAccount option" string string
  | Payment "MuxedAccount option" MuxedAccount Asset string
  | PathPaymentStrictReceive "MuxedAccount option" MuxedAccount Asset string Asset string
      "Asset list"
  | ManageSellOffer "MuxedAccount option" Asset Asset string price_arg int
  | CreatePassiveSellOffer "MuxedAccount option" Asset Asset string price_arg
  | SetOptions "MuxedAccount option" "string option" "int option" "int option" "int option"
      "int option" "int option" "int option" "string option" "Signer option"
  | ChangeTrust "MuxedAccount option" Asset string
  | AllowTrust "MuxedAccount option" string string TrustLineEntryFlag
  | AccountMerge "MuxedAccount option" MuxedAccount
  | ManageData "MuxedAccount option" string "bytes option"
  | BumpSequence "MuxedAccount option" int
  | OtherOperation "MuxedAccount option" string

datatype Memo =
    NoneMemo
  | TextMemo bytes
  | IdMemo int
  | HashMemo bytes
  | ReturnHashMemo bytes

datatype TimeBounds = TimeBounds int int

datatype Transaction =
  Transaction MuxedAccount int int "TimeBounds option" Memo "Operation list"

datatype TransactionEnvelope = TransactionEnvelope Transaction

text \<open>
  What the module takes from outside: the import flag, the methods of \<open>stellar_sdk\<close> it
  calls (\<open>Operation.to_xdr_amount\<close>, \<open>Price.from_raw_price\<close>, \<open>Asset.is_native\<close>,
  \<open>Asset.guess_asset_type\<close>, the \<open>value\<close> of an enum member) and \<open>bytes.decode("utf-8")\<close>.
  They are parameters of the model; the ones that can raise return a sum.
\<close>

record sdk =
  HAVE_STELLAR_SDK :: bool
  to_xdr_amount :: "string \<Rightarrow> exn + int"
  from_raw_price :: "string \<Rightarrow> exn + Price"
  is_native :: "Asset \<Rightarrow> bool"
  guess_asset_type :: "Asset \<Rightarrow> string"
  decode_utf8 :: "bytes \<Rightarrow> exn + string"
  signer_key_type_value :: "SignerKeyType \<Rightarrow> int"
  trust_line_entry_flag_value :: "TrustLineEntryFlag \<Rightarrow> int"

subsection \<open>Constants\<close>

definition MEMO_TYPE_NONE :: int where "MEMO_TYPE_NONE = 0"
definition MEMO_TYPE_TEXT :: int where "MEMO_TYPE_TEXT = 1"
definition MEMO_TYPE_ID :: int where "MEMO_TYPE_ID = 2"
definition MEMO_TYPE_HASH :: int where "MEMO_TYPE_HASH = 3"
definition MEMO_TYPE_RETURN :: int where "MEMO_TYPE_RETURN = 4"

definition ASSET_TYPE_NATIVE :: int where "ASSET_TYPE_NATIVE = 0"
definition ASSET_TYPE_ALPHA4 :: int where "ASSET_TYPE_ALPHA4 = 1"
definition ASSET_TYPE_ALPHA12 :: int where "ASSET_TYPE_ALPHA12 = 2"

subsection \<open>Raising and sequencing\<close>

text \<open>An exception raised by a subexpression leaves the enclosing function.\<close>

definition bind_exn :: "exn + 'a \<Rightarrow> ('a \<Rightarrow> exn + 'b) \<Rightarrow> exn + 'b" where
  "bind_exn m f = (case m of Inl e \<Rightarrow> Inl e | Inr x \<Rightarrow> f x)"

text \<open>A list comprehension \<open>[f(x) for x in xs]\<close> whose \<open>f\<close> can raise.\<close>

fun map_exn :: "('a \<Rightarrow> exn + 'b) \<Rightarrow> 'a list \<Rightarrow> exn + 'b list" where
  "map_exn f [] = Inr []"
| "map_exn f (x # xs) =
     bind_exn (f x) (\<lambda>y. bind_exn (map_exn f xs) (\<lambda>ys. Inr (y # ys)))"

subsection \<open>The readers\<close>

definition read_amount :: "sdk \<Rightarrow> string \<Rightarrow> exn + int" where
  "read_amount sdk amount = to_xdr_amount sdk amount"

fun read_price :: "sdk \<Rightarrow> price_arg \<Rightarrow> exn + Price" where
  "read_price sdk (Price_object price) = Inr price"
| "read_price sdk (Raw_price price) = from_raw_price sdk price"

fun read_asset :: "sdk \<Rightarrow> Asset \<Rightarrow> exn + StellarAssetType" where
  "read_asset sdk (Asset code issuer) =
     (if is_native sdk (Asset code issuer)
      then Inr (StellarAssetType (Some ASSET_TYPE_NATIVE) None None)
      else if guess_asset_type sdk (Asset code issuer) = ''credit_alphanum4''
      then Inr (StellarAssetType (Some ASSET_TYPE_ALPHA4) (Some code) issuer)
      else if guess_asset_type sdk (Asset code issuer) = ''credit_alphanum12''
      then Inr (StellarAssetType (Some ASSET_TYPE_ALPHA12) (Some code) issuer)
      else Inl (ValueError ''Unsupported asset type''))"

text \<open>
  \<^verbatim>\<open>
      if op.source:
          source_account = op.source.account_id
      else:
          source_account = None
  \<close>
\<close>

fun read_source_account :: "MuxedAccount option \<Rightarrow> string option" where
  "read_source_account (Some (MuxedAccount account_id)) = Some account_id"
| "read_source_account None = None"

fun read_operation :: "sdk \<Rightarrow> Operation \<Rightarrow> exn + message" where
  "read_operation sdk (CreateAccount source destination starting_balance) =
     bind_exn (read_amount sdk starting_balance) (\<lambda>starting_balance.
     Inr (StellarCreateAccountOp (read_source_account source) (Some destination)
            (Some starting_balance)))"
| "read_operation sdk (Payment source (MuxedAccount destination) asset amount) =
     bind_exn (read_asset sdk asset) (\<lambda>asset.
     bind_exn (read_amount sdk amount) (\<lambda>amount.
     Inr (StellarPaymentOp (read_source_account source) (Some destination) (Some asset)
            (Some amount))))"
| "read_operation sdk (PathPaymentStrictReceive source (MuxedAccount destination)
                         send_asset send_max dest_asset dest_amount path) =
     bind_exn (read_asset sdk send_asset) (\<lambda>send_asset.
     bind_exn (read_amount sdk send_max) (\<lambda>send_max.
     bind_exn (read_asset sdk dest_asset) (\<lambda>destination_asset.
     bind_exn (read_amount sdk dest_amount) (\<lambda>destination_amount.
     bind_exn (map_exn (read_asset sdk) path) (\<lambda>paths.
     Inr (StellarPathPaymentOp (read_source_account source) (Some send_asset)
            (Some send_max) (Some destination) (Some destination_asset)
            (Some destination_amount) paths))))))"
| "read_operation sdk (ManageSellOffer source selling buying amount price offer_id) =
     bind_exn (read_price sdk price) (\<lambda>price.
     bind_exn (read_asset sdk selling) (\<lambda>selling_asset.
     bind_exn (read_asset sdk buying) (\<lambda>buying_asset.
     bind_exn (read_amount sdk amount) (\<lambda>amount.
     case price of Price n d \<Rightarrow>
       Inr (StellarManageOfferOp (read_source_account source) (Some selling_asset)
              (Some buying_asset) (Some amount) (Some n) (Some d) (Some offer_id))))))"
| "read_operation sdk (CreatePassiveSellOffer source selling buying amount price) =
     bind_exn (read_price sdk price) (\<lambda>price.
     bind_exn (read_asset sdk selling) (\<lambda>selling_asset.
     bind_exn (read_asset sdk buying) (\<lambda>buying_asset.
     bind_exn (read_amount sdk amount) (\<lambda>amount.
     case price of Price n d \<Rightarrow>
       Inr (StellarCreatePassiveOfferOp (read_source_account source) (Some selling_asset)
              (Some buying_asset) (Some amount) (Some n) (Some d))))))"
| "read_operation sdk (SetOptions source inflation_dest clear_flags set_flags master_weight
                         low_threshold med_threshold high_threshold home_domain signer) =
     (case signer of
        None \<Rightarrow>
          Inr (StellarSetOptionsOp (read_source_account source) inflation_dest clear_flags
                 set_flags master_weight low_threshold med_threshold high_threshold
                 home_domain None None None)
      | Some (Signer (SignerKey signer_type uint256) weight) \<Rightarrow>
          (if signer_type = SIGNER_KEY_TYPE_ED25519
              \<or> signer_type = SIGNER_KEY_TYPE_HASH_X
              \<or> signer_type = SIGNER_KEY_TYPE_PRE_AUTH_TX
           then Inr (StellarSetOptionsOp (read_source_account source) inflation_dest
                       clear_flags set_flags master_weight low_threshold med_threshold
                       high_threshold home_domain
                       (Some (signer_key_type_value sdk signer_type)) (Some uint256)
                       (Some weight))
           else Inl (ValueError ''Unsupported signer key type'')))"
| "read_operation sdk (ChangeTrust source asset limit) =
     bind_exn (read_asset sdk asset) (\<lambda>asset.
     bind_exn (read_amount sdk limit) (\<lambda>limit.
     Inr (StellarChangeTrustOp (read_source_account source) (Some asset) (Some limit))))"
| "read_operation sdk (AllowTrust source trustor asset_code authorize) =
     (if authorize \<noteq> UNAUTHORIZED_FLAG \<and> authorize \<noteq> AUTHORIZED_FLAG
      then Inl (ValueError ''Unsupported trust line flag'')
      else let asset_type = (if length asset_code \<le> 4 then ASSET_TYPE_ALPHA4
                             else ASSET_TYPE_ALPHA12)
           in Inr (StellarAllowTrustOp (read_source_account source) (Some trustor)
                     (Some asset_type) (Some asset_code)
                     (Some (trust_line_entry_flag_value sdk authorize))))"
| "read_operation sdk (AccountMerge source (MuxedAccount destination)) =
     Inr (StellarAccountMergeOp (read_source_account source) (Some destination))"
| "read_operation sdk (ManageData source data_name data_value) =
     Inr (StellarManageDataOp (read_source_account source) (Some data_name) data_value)"
| "read_operation sdk (BumpSequence source bump_to) =
     Inr (StellarBumpSequenceOp (read_source_account source) (Some bump_to))"
| "read_operation sdk (OtherOperation source cls) =
     Inl (ValueError (''Unknown operation type: '' @ cls))"

text \<open>\<open>messages.StellarSignTx()\<close>: a header with no field set.\<close>

definition new_StellarSignTx :: StellarSignTx where
  "new_StellarSignTx =
     \<lparr>address_n = [], network_passphrase = None, source_account = None, fee = None,
      sequence_number = None, timebounds_start = None, timebounds_end = None,
      memo_type = None, memo_text = None, memo_id = None, memo_hash = None,
      num_operations = None\<rparr>"

text \<open>The \<open>isinstance\<close> chain over the memo (lines 89-104).\<close>

fun read_memo :: "sdk \<Rightarrow> StellarSignTx \<Rightarrow> Memo \<Rightarrow> exn + StellarSignTx" where
  "read_memo sdk tx (TextMemo text) =
     (let tx = tx\<lparr>memo_type := Some MEMO_TYPE_TEXT\<rparr>
      in bind_exn (decode_utf8 sdk text) (\<lambda>text. Inr (tx\<lparr>memo_text := Some text\<rparr>)))"
| "read_memo sdk tx (IdMemo memo_id') =
     Inr (tx\<lparr>memo_type := Some MEMO_TYPE_ID, memo_id := Some memo_id'\<rparr>)"
| "read_memo sdk tx (HashMemo memo_hash') =
     Inr (tx\<lparr>memo_type := Some MEMO_TYPE_HASH, memo_hash := Some memo_hash'\<rparr>)"
| "read_memo sdk tx (ReturnHashMemo memo_return) =
     Inr (tx\<lparr>memo_type := Some MEMO_TYPE_RETURN, memo_hash := Some memo_return\<rparr>)"
| "read_memo sdk tx NoneMemo = Inr (tx\<lparr>memo_type := Some MEMO_TYPE_NONE\<rparr>)"

fun from_envelope :: "sdk \<Rightarrow> TransactionEnvelope \<Rightarrow> exn + (StellarSignTx \<times> message list)"
where
  "from_envelope sdk (TransactionEnvelope
      (Transaction (MuxedAccount source) fee' sequence time_bounds memo operations)) =
     (if \<not> HAVE_STELLAR_SDK sdk then Inl (RuntimeError ''Stellar SDK not available'')
      else
        let tx = new_StellarSignTx;
            tx = tx\<lparr>source_account := Some source\<rparr>;
            tx = tx\<lparr>fee := Some fee'\<rparr>;
            tx = tx\<lparr>sequence_number := Some sequence\<rparr>;
            tx = (case time_bounds of
                    Some (TimeBounds min_time max_time) \<Rightarrow>
                      tx\<lparr>timebounds_start := Some min_time, timebounds_end := Some max_time\<rparr>
                  | None \<Rightarrow> tx)
        in bind_exn (read_memo sdk tx memo) (\<lambda>tx.
           let tx = tx\<lparr>num_operations := Some (int (length operations))\<rparr>
           in bind_exn (map_exn (read_operation sdk) operations) (\<lambda>operations.
              Inr (tx, operations))))"

section \<open>Auxiliary definitions\<close>

text \<open>How the loop's outcome follows from the last response seen.\<close>

fun loop_end :: "outcome \<Rightarrow> outcome" where
  "loop_end (Inl e) = Inl e"
| "loop_end (Inr r) =
     (if is_StellarTxOpRequest r then Inl (IndexError ''pop from empty list'') else Inr r)"

text \<open>The caller's view of the loop's end: the handlers and checks of lines 283-299.\<close>

fun sign_tx_end :: "nat \<Rightarrow> outcome \<Rightarrow> message list \<Rightarrow> outcome" where
  "sign_tx_end k (Inl e) rest =
     (if 0 < k \<and> is_IndexError e
      then Inl (TrezorException ''Reached end of operations without a signature.'')
      else Inl e)"
| "sign_tx_end k (Inr r) rest =
     (if is_StellarTxOpRequest r
      then Inl (TrezorException ''Reached end of operations without a signature.'')
      else if \<not> is_StellarSignedTx r
      then Inl (TrezorException (''Unexpected message: '' @ class_name r))
      else if rest \<noteq> []
      then Inl (TrezorException ''Received a signature before processing all operations.'')
      else Inr r)"

text \<open>A stand-in for \<open>stellar_sdk\<close>, for concrete runs of the converter.\<close>

definition test_sdk :: sdk where
  "test_sdk =
     \<lparr>HAVE_STELLAR_SDK = True,
      to_xdr_amount = (\<lambda>amount. if amount = ''1.5'' then Inr 15000000
                                 else Inl (ValueError ''invalid amount'')),
      from_raw_price = (\<lambda>price. Inl (ValueError ''invalid price'')),
      is_native = (\<lambda>asset. case asset of Asset code issuer \<Rightarrow> issuer = None),
      guess_asset_type = (\<lambda>asset. case asset of Asset code issuer \<Rightarrow>
         if issuer = None then ''native''
         else if length code \<le> 4 then ''credit_alphanum4'' else ''credit_alphanum12''),
      decode_utf8 = (\<lambda>text. Inl (UnicodeDecodeError ''invalid start byte'')),
      signer_key_type_value = (\<lambda>t. 0),
      trust_line_entry_flag_value = (\<lambda>f. if f = AUTHORIZED_FLAG then 1 else 0)\<rparr>"


section \<open>The signing exchange\<close>


subsection \<open>The loop\<close>

lemma is_StellarTxOpRequest_iff: "is_StellarTxOpRequest m \<longleftrightarrow> m = StellarTxOpRequest"
  by (cases m) simp_all

lemma head_of_requests:
  assumes "r # rs = replicate n (Inr StellarTxOpRequest) @ [Inr t]"
  shows "\<exists>r'. r = Inr r'"
  using assms by (cases n) auto

lemma signing_loop_served:
  assumes "Inr resp # responses call client sent
             = replicate (length sent) (Inr StellarTxOpRequest) @ [Inr t]"
      and "\<not> is_StellarTxOpRequest t"
  shows "\<exists>client'. signing_loop call client resp (sent @ rest) = (Inr t, client', rest)"
  using assms
proof (induction sent arbitrary: client resp)
  case Nil
  then have "resp = t" by simp
  with Nil.prems(2) show ?case by (cases rest) simp_all
next
  case (Cons operation sent)
  obtain r client1 where c: "call client operation = (r, client1)"
    by (cases "call client operation")
  from Cons.prems(1) c have resp: "resp = StellarTxOpRequest"
    and tl: "r # responses call client1 sent
               = replicate (length sent) (Inr StellarTxOpRequest) @ [Inr t]"
    by simp_all
  from head_of_requests [OF tl] obtain r' where r: "r = Inr r'" ..
  from Cons.IH [OF tl [unfolded r] Cons.prems(2)]
  obtain client' where "signing_loop call client1 r' (sent @ rest) = (Inr t, client', rest)" ..
  with resp c r show ?case by simp
qed

lemma signing_loop_exhausted:
  assumes "Inr resp # responses call client operations
             = replicate (Suc (length operations)) (Inr StellarTxOpRequest)"
  shows "\<exists>client'. signing_loop call client resp operations
           = (Inl (IndexError ''pop from empty list''), client', [])"
  using assms
proof (induction operations arbitrary: client resp)
  case Nil
  then show ?case by simp
next
  case (Cons operation operations)
  obtain r client1 where c: "call client operation = (r, client1)"
    by (cases "call client operation")
  from Cons.prems c have resp: "resp = StellarTxOpRequest"
    and r: "r = Inr StellarTxOpRequest"
    and tl: "Inr StellarTxOpRequest # responses call client1 operations
               = replicate (Suc (length operations)) (Inr StellarTxOpRequest)"
    by simp_all
  from Cons.IH [OF tl] resp c r show ?case by simp
qed

lemma signing_loop_recording:
  "\<exists>ext client'.
      length ext \<le> length operations \<and>
      map fst ext = take (length ext) operations \<and>
      take (length ext) (Inr resp # map snd ext)
        = replicate (length ext) (Inr StellarTxOpRequest) \<and>
      (last (Inr resp # map snd ext) = Inr StellarTxOpRequest
         \<longrightarrow> length ext = length operations) \<and>
      signing_loop (recording call) (client, log) resp operations
        = (loop_end (last (Inr resp # map snd ext)), (client', log @ ext),
           drop (length ext) operations)"
proof (induction operations arbitrary: client log resp)
  case Nil
  show ?case by (rule exI [of _ "[]"]) (simp add: is_StellarTxOpRequest_iff)
next
  case (Cons operation operations)
  show ?case
  proof (cases "is_StellarTxOpRequest resp")
    case False
    then show ?thesis
      by (intro exI [of _ "[]"]) (simp add: is_StellarTxOpRequest_iff)
  next
    case True
    then have resp: "resp = StellarTxOpRequest" by (simp add: is_StellarTxOpRequest_iff)
    obtain r client1 where c: "call client operation = (r, client1)"
      by (cases "call client operation")
    then have rc: "recording call (client, log) operation
                     = (r, (client1, log @ [(operation, r)]))"
      by (simp add: recording_def)
    show ?thesis
    proof (cases r)
      case (Inl e)
      with resp rc show ?thesis
        by (intro exI [of _ "[(operation, Inl e)]"] exI [of _ client1]) simp
    next
      case (Inr r')
      from Cons.IH [of r' client1 "log @ [(operation, r)]"]
      obtain ext client' where ih:
        "length ext \<le> length operations"
        "map fst ext = take (length ext) operations"
        "take (length ext) (Inr r' # map snd ext)
           = replicate (length ext) (Inr StellarTxOpRequest)"
        "last (Inr r' # map snd ext) = Inr StellarTxOpRequest
           \<longrightarrow> length ext = length operations"
        "signing_loop (recording call) (client1, log @ [(operation, r)]) r' operations
           = (loop_end (last (Inr r' # map snd ext)), (client', (log @ [(operation, r)]) @ ext),
              drop (length ext) operations)"
        by blast
      with resp rc Inr show ?thesis
        by (intro exI [of _ "(operation, r) # ext"] exI [of _ client']) simp
    qed
  qed
qed


lemma sign_tx_recording:
  fixes call :: "'d client_call"
  assumes res: "res = sign_tx (recording call) (client, []) tx operations addr_n passphrase"
  shows "\<exists>r0 ext.
      tx_after res = tx\<lparr>network_passphrase := passphrase, address_n := addr_n,
                        num_operations := Some (int (length operations))\<rparr> \<and>
      snd (client_after res) = (StellarSignTx (tx_after res), r0) # ext \<and>
      length ext \<le> length operations \<and>
      map fst ext = take (length ext) operations \<and>
      operations_after res = drop (length ext) operations \<and>
      take (length ext) (r0 # map snd ext)
        = replicate (length ext) (Inr StellarTxOpRequest) \<and>
      (last (r0 # map snd ext) = Inr StellarTxOpRequest
         \<longrightarrow> length ext = length operations) \<and>
      result res = sign_tx_end (length ext) (last (r0 # map snd ext)) (operations_after res)"
proof -
  define tx' where "tx' = tx\<lparr>network_passphrase := passphrase, address_n := addr_n,
                        num_operations := Some (int (length operations))\<rparr>"
  obtain r0 client1 where c: "call client (StellarSignTx tx') = (r0, client1)"
    by (cases "call client (StellarSignTx tx')")
  then have rc: "recording call (client, []) (StellarSignTx tx')
                   = (r0, (client1, [(StellarSignTx tx', r0)]))"
    by (simp add: recording_def)
  show ?thesis
  proof (cases r0)
    case (Inl e)
    with rc res show ?thesis
      unfolding tx'_def
      by (intro exI [of _ "Inl e"] exI [of _ "[]"]) (simp add: sign_tx_def Let_def)
  next
    case (Inr resp)
    from signing_loop_recording [of operations resp call client1 "[(StellarSignTx tx', r0)]"]
    obtain ext client' where lp:
      "length ext \<le> length operations"
      "map fst ext = take (length ext) operations"
      "take (length ext) (Inr resp # map snd ext)
         = replicate (length ext) (Inr StellarTxOpRequest)"
      "last (Inr resp # map snd ext) = Inr StellarTxOpRequest
         \<longrightarrow> length ext = length operations"
      "signing_loop (recording call) (client1, [(StellarSignTx tx', r0)]) resp operations
         = (loop_end (last (Inr resp # map snd ext)),
            (client', [(StellarSignTx tx', r0)] @ ext), drop (length ext) operations)"
      by blast
    show ?thesis
    proof (cases "last (Inr resp # map snd ext)")
      case l: (Inl e)
      then have "ext \<noteq> []" by auto
      with l lp rc res Inr show ?thesis
        unfolding tx'_def
        by (intro exI [of _ "Inr resp"] exI [of _ ext]) (simp add: sign_tx_def Let_def)
    next
      case l: (Inr r)
      with lp rc res Inr show ?thesis
        unfolding tx'_def
        by (intro exI [of _ "Inr resp"] exI [of _ ext])
           (auto simp add: sign_tx_def Let_def is_StellarTxOpRequest_iff)
    qed
  qed
qed


subsection \<open>Successful and failed exchanges\<close>

text \<open>
  Claim C1. For every \<open>N \<ge> 0\<close> (the length of \<open>operations\<close>): if the client answers the
  header and the first \<open>N - 1\<close> operations with \<open>StellarTxOpRequest\<close> each (\<open>N\<close> requests in
  all) and the last message sent with a \<open>StellarSignedTx\<close>, then \<open>sign_tx\<close> returns that
  \<open>StellarSignedTx\<close> and the operations list is empty when it returns.
\<close>

theorem sign_tx_returns_signature:
  assumes "responses call client
             (StellarSignTx (tx\<lparr>network_passphrase := passphrase, address_n := addr_n,
                                num_operations := Some (int (length operations))\<rparr>)
              # operations)
           = replicate (length operations) (Inr StellarTxOpRequest)
             @ [Inr (StellarSignedTx public_key signature)]"
  shows "result (sign_tx call client tx operations addr_n passphrase)
           = Inr (StellarSignedTx public_key signature)
         \<and> operations_after (sign_tx call client tx operations addr_n passphrase) = []"
proof -
  define tx' where "tx' = tx\<lparr>network_passphrase := passphrase, address_n := addr_n,
                        num_operations := Some (int (length operations))\<rparr>"
  obtain r0 client1 where c: "call client (StellarSignTx tx') = (r0, client1)"
    by (cases "call client (StellarSignTx tx')")
  with assms have tl: "r0 # responses call client1 operations
      = replicate (length operations) (Inr StellarTxOpRequest)
        @ [Inr (StellarSignedTx public_key signature)]"
    by (simp add: tx'_def)
  from head_of_requests [OF tl] obtain resp where r0: "r0 = Inr resp" ..
  from signing_loop_served [of resp call client1 operations _ "[]"] tl r0
  obtain client' where
    "signing_loop call client1 resp operations
       = (Inr (StellarSignedTx public_key signature), client', [])"
    by auto
  with c r0 show ?thesis
    by (simp add: sign_tx_def Let_def tx'_def)
qed

theorem sign_tx_returns_signature_witness:
  "result (sign_tx scripted
             [Inr StellarTxOpRequest, Inr StellarTxOpRequest,
              Inr (StellarSignedTx (Some [1]) (Some [2, 3]))]
             new_StellarSignTx
             [StellarBumpSequenceOp None (Some 7), StellarAccountMergeOp None (Some ''GA'')]
             [44, 148, 0] (Some DEFAULT_NETWORK_PASSPHRASE))
     = Inr (StellarSignedTx (Some [1]) (Some [2, 3]))
   \<and> operations_after (sign_tx scripted
             [Inr StellarTxOpRequest, Inr StellarTxOpRequest,
              Inr (StellarSignedTx (Some [1]) (Some [2, 3]))]
             new_StellarSignTx
             [StellarBumpSequenceOp None (Some 7), StellarAccountMergeOp None (Some ''GA'')]
             [44, 148, 0] (Some DEFAULT_NETWORK_PASSPHRASE)) = []"
  by (rule sign_tx_returns_signature) (simp add: scripted_def)

text \<open>
  Claim C2. If the client answers with the \<open>StellarSignedTx\<close> while one or more of the
  supplied operations are still in the list (only the operations \<open>sent\<close> have gone out,
  \<open>remaining\<close> is not empty), then \<open>sign_tx\<close> raises the premature-signature
  \<open>TrezorException\<close>; the signature is not returned, and the unsent operations are
  still in the list.
\<close>

theorem sign_tx_premature_signature:
  assumes "operations = sent @ remaining" and "remaining \<noteq> []"
    and "responses call client
             (StellarSignTx (tx\<lparr>network_passphrase := passphrase, address_n := addr_n,
                                num_operations := Some (int (length operations))\<rparr>)
              # sent)
           = replicate (length sent) (Inr StellarTxOpRequest)
             @ [Inr (StellarSignedTx public_key signature)]"
  shows "result (sign_tx call client tx operations addr_n passphrase)
           = Inl (TrezorException
                    ''Received a signature before processing all operations.'')
         \<and> operations_after (sign_tx call client tx operations addr_n passphrase)
             = remaining"
proof -
  define tx' where "tx' = tx\<lparr>network_passphrase := passphrase, address_n := addr_n,
                        num_operations := Some (int (length operations))\<rparr>"
  obtain r0 client1 where c: "call client (StellarSignTx tx') = (r0, client1)"
    by (cases "call client (StellarSignTx tx')")
  with assms(3) have tl: "r0 # responses call client1 sent
      = replicate (length sent) (Inr StellarTxOpRequest)
        @ [Inr (StellarSignedTx public_key signature)]"
    by (simp add: tx'_def)
  from head_of_requests [OF tl] obtain resp where r0: "r0 = Inr resp" ..
  from signing_loop_served [of resp call client1 sent _ remaining] tl r0
  obtain client' where
    "signing_loop call client1 resp (sent @ remaining)
       = (Inr (StellarSignedTx public_key signature), client', remaining)"
    by auto
  with c r0 assms(1,2) show ?thesis
    by (simp add: sign_tx_def Let_def tx'_def)
qed

theorem sign_tx_premature_signature_witness:
  "result (sign_tx scripted
             [Inr StellarTxOpRequest, Inr (StellarSignedTx (Some [1]) (Some [2, 3]))]
             new_StellarSignTx
             [StellarBumpSequenceOp None (Some 7), StellarAccountMergeOp None (Some ''GA'')]
             [44, 148, 0] None)
     = Inl (TrezorException ''Received a signature before processing all operations.'')
   \<and> operations_after (sign_tx scripted
             [Inr StellarTxOpRequest, Inr (StellarSignedTx (Some [1]) (Some [2, 3]))]
             new_StellarSignTx
             [StellarBumpSequenceOp None (Some 7), StellarAccountMergeOp None (Some ''GA'')]
             [44, 148, 0] None)
     = [StellarAccountMergeOp None (Some ''GA'')]"
  by (rule sign_tx_premature_signature [where sent = "[StellarBumpSequenceOp None (Some 7)]"])
     (simp_all add: scripted_def)

text \<open>
  Claim C3. If the client asks for another operation after all \<open>N\<close> supplied operations
  have been sent (it answers the header and every operation with \<open>StellarTxOpRequest\<close>),
  then \<open>sign_tx\<close> raises the exhausted-operations \<open>TrezorException\<close>, which is neither
  the premature-signature error nor an unexpected-message error.
\<close>

theorem sign_tx_operations_exhausted:
  assumes "responses call client
             (StellarSignTx (tx\<lparr>network_passphrase := passphrase, address_n := addr_n,
                                num_operations := Some (int (length operations))\<rparr>)
              # operations)
           = replicate (Suc (length operations)) (Inr StellarTxOpRequest)"
  shows "result (sign_tx call client tx operations addr_n passphrase)
           = Inl (TrezorException ''Reached end of operations without a signature.'')
         \<and> result (sign_tx call client tx operations addr_n passphrase)
             \<noteq> Inl (TrezorException
                      ''Received a signature before processing all operations.'')
         \<and> result (sign_tx call client tx operations addr_n passphrase)
             \<noteq> Inl (TrezorException (''Unexpected message: '' @ cls))"
proof -
  define tx' where "tx' = tx\<lparr>network_passphrase := passphrase, address_n := addr_n,
                        num_operations := Some (int (length operations))\<rparr>"
  obtain r0 client1 where c: "call client (StellarSignTx tx') = (r0, client1)"
    by (cases "call client (StellarSignTx tx')")
  with assms have r0: "r0 = Inr StellarTxOpRequest"
    and tl: "Inr StellarTxOpRequest # responses call client1 operations
               = replicate (Suc (length operations)) (Inr StellarTxOpRequest)"
    by (simp_all add: tx'_def)
  from signing_loop_exhausted [OF tl]
  obtain client' where
    "signing_loop call client1 StellarTxOpRequest operations
       = (Inl (IndexError ''pop from empty list''), client', [])" ..
  with c r0 show ?thesis
    by (simp add: sign_tx_def Let_def tx'_def)
qed

theorem sign_tx_operations_exhausted_witness:
  "result (sign_tx scripted
             [Inr StellarTxOpRequest, Inr StellarTxOpRequest]
             new_StellarSignTx [StellarBumpSequenceOp None (Some 7)] [44, 148, 0] None)
     = Inl (TrezorException ''Reached end of operations without a signature.'')"
  using sign_tx_operations_exhausted [where call = scripted
          and client = "[Inr StellarTxOpRequest, Inr StellarTxOpRequest]"
          and tx = new_StellarSignTx and passphrase = None and addr_n = "[44, 148, 0]"
          and operations = "[StellarBumpSequenceOp None (Some 7)]"]
  by (simp add: scripted_def)

subsection \<open>Responses outside the protocol\<close>

text \<open>
  Claim C4. Run \<open>sign_tx\<close> against a recording client. Whenever a response in the log
  (the first one, to the header, at \<open>i = 0\<close>, or any later one) is neither a
  \<open>StellarTxOpRequest\<close> nor a \<open>StellarSignedTx\<close>, \<open>sign_tx\<close> raises the
  unexpected-message \<open>TrezorException\<close>, and that exchange is the last of the log:
  nothing is sent after it, and the operations not yet sent stay in the list.
\<close>

theorem sign_tx_unexpected_message:
  fixes call :: "'d client_call"
  assumes res: "res = sign_tx (recording call) (client, []) tx operations addr_n passphrase"
    and i: "i < length (snd (client_after res))"
    and r: "snd (snd (client_after res) ! i) = Inr r"
    and other: "\<not> is_StellarTxOpRequest r" "\<not> is_StellarSignedTx r"
  shows "result res = Inl (TrezorException (''Unexpected message: '' @ class_name r))
         \<and> length (snd (client_after res)) = Suc i
         \<and> operations_after res = drop i operations"
proof -
  from sign_tx_recording [OF res] obtain r0 ext where run:
    "snd (client_after res) = (StellarSignTx (tx_after res), r0) # ext"
    "operations_after res = drop (length ext) operations"
    "take (length ext) (r0 # map snd ext) = replicate (length ext) (Inr StellarTxOpRequest)"
    "result res = sign_tx_end (length ext) (last (r0 # map snd ext)) (operations_after res)"
    by blast
  define rs where "rs = r0 # map snd ext"
  from run(1) have len: "length (snd (client_after res)) = Suc (length ext)"
    and rs: "map snd (snd (client_after res)) = rs"
    by (simp_all add: rs_def)
  from i r rs have ri: "rs ! i = Inr r"
    by (metis nth_map)
  have "i = length ext"
  proof (rule ccontr)
    assume "i \<noteq> length ext"
    with i len have lt: "i < length ext" by simp
    then have "rs ! i = take (length ext) rs ! i" by simp
    also from run(3) lt have "\<dots> = Inr StellarTxOpRequest" by (simp add: rs_def)
    finally show False using ri other(1) by simp
  qed
  moreover have "rs \<noteq> []" and "length rs = Suc (length ext)"
    by (simp_all add: rs_def)
  then have "last rs = rs ! length ext"
    by (simp add: last_conv_nth)
  ultimately show ?thesis
    using ri run(2) run(4) [folded rs_def] len other by simp
qed

theorem sign_tx_unexpected_message_witness:
  "result (sign_tx (recording scripted) ([Inr (OtherMessage ''Failure'')], [])
             new_StellarSignTx [StellarBumpSequenceOp None (Some 7)] [44, 148, 0] None)
     = Inl (TrezorException (''Unexpected message: '' @ class_name (OtherMessage ''Failure'')))
   \<and> length (snd (client_after (sign_tx (recording scripted)
             ([Inr (OtherMessage ''Failure'')], [])
             new_StellarSignTx [StellarBumpSequenceOp None (Some 7)] [44, 148, 0] None)))
     = Suc 0
   \<and> operations_after (sign_tx (recording scripted) ([Inr (OtherMessage ''Failure'')], [])
             new_StellarSignTx [StellarBumpSequenceOp None (Some 7)] [44, 148, 0] None)
     = drop 0 [StellarBumpSequenceOp None (Some 7)]"
  by (rule sign_tx_unexpected_message [OF refl])
     (simp_all add: sign_tx_def recording_def scripted_def Let_def)

subsection \<open>What is sent, and how often\<close>

text \<open>
  Claim C5. For every operations list and every client, the messages \<open>sign_tx\<close> sends
  are the header followed by a prefix of the supplied operations in their original
  order (\<open>take k operations\<close>: nothing reordered, skipped or repeated); the list is
  consumed from the front (\<open>drop k operations\<close> is what is left); and each of the \<open>k\<close>
  operations was popped right after a \<open>StellarTxOpRequest\<close>: the \<open>k\<close> responses before
  the last one are all requests.
\<close>

theorem sign_tx_sends_prefix_in_order:
  fixes call :: "'d client_call"
  shows "let res = sign_tx (recording call) (client, []) tx operations addr_n passphrase;
             log = snd (client_after res);
             k = length log - 1
         in k \<le> length operations
          \<and> map fst log = StellarSignTx (tx_after res) # take k operations
          \<and> operations_after res = drop k operations
          \<and> take k (map snd log) = replicate k (Inr StellarTxOpRequest)"
proof -
  define res where "res = sign_tx (recording call) (client, []) tx operations addr_n passphrase"
  from sign_tx_recording [OF res_def] obtain r0 ext where run:
    "snd (client_after res) = (StellarSignTx (tx_after res), r0) # ext"
    "length ext \<le> length operations"
    "map fst ext = take (length ext) operations"
    "operations_after res = drop (length ext) operations"
    "take (length ext) (r0 # map snd ext) = replicate (length ext) (Inr StellarTxOpRequest)"
    by blast
  then show ?thesis
    unfolding Let_def res_def [symmetric] by simp
qed

text \<open>
  Claim C7. Every exchange in the log is one send paired with its one receive, and over
  any run the number of exchanges is 1 (the header) plus the number of operations taken
  off the list: no message is sent a second time.
\<close>

theorem sign_tx_one_exchange_per_step:
  fixes call :: "'d client_call"
  shows "let res = sign_tx (recording call) (client, []) tx operations addr_n passphrase;
             log = snd (client_after res)
         in length (operations_after res) \<le> length operations
          \<and> length log = 1 + (length operations - length (operations_after res))"
proof -
  define res where "res = sign_tx (recording call) (client, []) tx operations addr_n passphrase"
  from sign_tx_recording [OF res_def] obtain r0 ext where run:
    "snd (client_after res) = (StellarSignTx (tx_after res), r0) # ext"
    "length ext \<le> length operations"
    "operations_after res = drop (length ext) operations"
    by blast
  then show ?thesis
    unfolding Let_def res_def [symmetric] by simp
qed

subsection \<open>The failures\<close>

text \<open>
  An exchange that ends on a response (no call raised): the result tells which check
  failed. It is the exhausted-operations error exactly when the last response asked for
  another operation, the unexpected-message error exactly when it was neither a request
  nor a signature, the premature-signature error exactly when it was a signature with
  operations left; and the signature is returned exactly when it came with the list
  empty. The three errors are \<open>TrezorException\<close>s with different messages.
\<close>

lemma sign_tx_result_of_last_response:
  fixes call :: "'d client_call"
  assumes res: "res = sign_tx (recording call) (client, []) tx operations addr_n passphrase"
    and r: "snd (last (snd (client_after res))) = Inr r"
  shows "(result res = Inl (TrezorException ''Reached end of operations without a signature.'')
            \<longleftrightarrow> is_StellarTxOpRequest r)
       \<and> (result res = Inl (TrezorException (''Unexpected message: '' @ class_name r))
            \<longleftrightarrow> \<not> is_StellarTxOpRequest r \<and> \<not> is_StellarSignedTx r)
       \<and> (result res
            = Inl (TrezorException ''Received a signature before processing all operations.'')
            \<longleftrightarrow> is_StellarSignedTx r \<and> operations_after res \<noteq> [])
       \<and> (result res = Inr r \<longleftrightarrow> is_StellarSignedTx r \<and> operations_after res = [])
       \<and> TrezorException ''Reached end of operations without a signature.''
           \<noteq> TrezorException ''Received a signature before processing all operations.''
       \<and> TrezorException (''Unexpected message: '' @ cls)
           \<noteq> TrezorException ''Reached end of operations without a signature.''
       \<and> TrezorException (''Unexpected message: '' @ cls)
           \<noteq> TrezorException ''Received a signature before processing all operations.''"
proof -
  from sign_tx_recording [OF res] obtain r0 ext where run:
    "snd (client_after res) = (StellarSignTx (tx_after res), r0) # ext"
    "result res = sign_tx_end (length ext) (last (r0 # map snd ext)) (operations_after res)"
    by blast
  have "last (r0 # map snd ext) = snd (last ((StellarSignTx (tx_after res), r0) # ext))"
    by (simp add: last_map)
  with r run have "result res = sign_tx_end (length ext) (Inr r) (operations_after res)"
    by simp
  then show ?thesis
    by (cases r) auto
qed

lemma sign_tx_result_of_last_response_example:
  "(result (sign_tx (recording scripted)
       ([Inr StellarTxOpRequest, Inr (StellarSignedTx (Some [1]) (Some [2, 3]))], [])
       new_StellarSignTx
       [StellarBumpSequenceOp None (Some 7), StellarAccountMergeOp None (Some ''GA'')]
       [44, 148, 0] None)
     = Inl (TrezorException ''Received a signature before processing all operations.''))
   \<and> is_StellarSignedTx (StellarSignedTx (Some [1]) (Some [2, 3]))
   \<and> operations_after (sign_tx (recording scripted)
       ([Inr StellarTxOpRequest, Inr (StellarSignedTx (Some [1]) (Some [2, 3]))], [])
       new_StellarSignTx
       [StellarBumpSequenceOp None (Some 7), StellarAccountMergeOp None (Some ''GA'')]
       [44, 148, 0] None) \<noteq> []"
  using sign_tx_result_of_last_response
    [OF refl, where call = scripted
       and client = "[Inr StellarTxOpRequest, Inr (StellarSignedTx (Some [1]) (Some [2, 3]))]"
       and tx = new_StellarSignTx
       and operations = "[StellarBumpSequenceOp None (Some 7),
                          StellarAccountMergeOp None (Some ''GA'')]"
       and addr_n = "[44, 148, 0]" and passphrase = None
       and r = "StellarSignedTx (Some [1]) (Some [2, 3])"]
  by (simp add: sign_tx_def recording_def scripted_def Let_def)

text \<open>
  What \<open>sign_tx\<close> does when a call raises: the exchange that raised is the last one, the
  operations not yet sent stay in the list, and the exception reaches the caller as it
  is, unless it is an \<open>IndexError\<close> raised inside the loop, which the handler meant for
  \<open>operations.pop(0)\<close> catches as well.
\<close>

lemma sign_tx_call_raises:
  fixes call :: "'d client_call"
  assumes res: "res = sign_tx (recording call) (client, []) tx operations addr_n passphrase"
    and i: "i < length (snd (client_after res))"
    and e: "snd (snd (client_after res) ! i) = Inl e"
  shows "result res =
           (if 0 < i \<and> is_IndexError e
            then Inl (TrezorException ''Reached end of operations without a signature.'')
            else Inl e)
         \<and> length (snd (client_after res)) = Suc i
         \<and> operations_after res = drop i operations"
proof -
  from sign_tx_recording [OF res] obtain r0 ext where run:
    "snd (client_after res) = (StellarSignTx (tx_after res), r0) # ext"
    "operations_after res = drop (length ext) operations"
    "take (length ext) (r0 # map snd ext) = replicate (length ext) (Inr StellarTxOpRequest)"
    "result res = sign_tx_end (length ext) (last (r0 # map snd ext)) (operations_after res)"
    by blast
  define rs where "rs = r0 # map snd ext"
  from run(1) have len: "length (snd (client_after res)) = Suc (length ext)"
    and rs: "map snd (snd (client_after res)) = rs"
    by (simp_all add: rs_def)
  from i e rs have ri: "rs ! i = Inl e"
    by (metis nth_map)
  have "i = length ext"
  proof (rule ccontr)
    assume "i \<noteq> length ext"
    with i len have lt: "i < length ext" by simp
    then have "rs ! i = take (length ext) rs ! i" by simp
    also from run(3) lt have "\<dots> = Inr StellarTxOpRequest" by (simp add: rs_def)
    finally show False using ri by simp
  qed
  moreover have "rs \<noteq> []" and "length rs = Suc (length ext)"
    by (simp_all add: rs_def)
  then have "last rs = rs ! length ext"
    by (simp add: last_conv_nth)
  ultimately show ?thesis
    using ri run(2) run(4) [folded rs_def] len by simp
qed

text \<open>
  Claim C8 (fails on the code). The claim: an exception of \<open>client.call\<close> reaches the
  caller verbatim at every step. The \<open>try\<close> block of lines 280-287 encloses the call as
  well as the \<open>pop\<close>, so an \<open>IndexError\<close> raised by \<open>client.call\<close> for an operation is
  replaced by the exhausted-operations \<open>TrezorException\<close>, although an operation is still
  in the list; the same \<open>IndexError\<close> raised for the header, outside the \<open>try\<close>, does
  reach the caller.
\<close>

theorem sign_tx_replaces_IndexError_of_call:
  "result (sign_tx scripted
             [Inr StellarTxOpRequest, Inl (IndexError ''list index out of range'')]
             new_StellarSignTx
             [StellarBumpSequenceOp None (Some 7), StellarAccountMergeOp None (Some ''GA'')]
             [44, 148, 0] None)
     = Inl (TrezorException ''Reached end of operations without a signature.'')
   \<and> operations_after (sign_tx scripted
             [Inr StellarTxOpRequest, Inl (IndexError ''list index out of range'')]
             new_StellarSignTx
             [StellarBumpSequenceOp None (Some 7), StellarAccountMergeOp None (Some ''GA'')]
             [44, 148, 0] None)
     = [StellarAccountMergeOp None (Some ''GA'')]
   \<and> result (sign_tx scripted
             [Inl (IndexError ''list index out of range'')]
             new_StellarSignTx
             [StellarBumpSequenceOp None (Some 7), StellarAccountMergeOp None (Some ''GA'')]
             [44, 148, 0] None)
     = Inl (IndexError ''list index out of range'')"
  by (simp add: sign_tx_def scripted_def Let_def)

text \<open>
  Claim C6 (fails on the code). The claim: every failure yields an error that tells which
  invariant broke, the three protocol failures being told apart by their errors. Since
  the handler of lines 283-287 also catches an \<open>IndexError\<close> of \<open>client.call\<close>, the
  exhausted-operations error is raised in a run where the client never asked for more
  than it was given: the last exchange raised, and an operation is still in the list.
  A run in which the client does ask for a third operation of two ends with the very
  same error, so the error does not tell the caller which of the two happened.
\<close>

theorem sign_tx_exhausted_error_not_identifying:
  "result (sign_tx (recording scripted)
             ([Inr StellarTxOpRequest, Inl (IndexError ''list index out of range'')], [])
             new_StellarSignTx
             [StellarBumpSequenceOp None (Some 7), StellarAccountMergeOp None (Some ''GA'')]
             [44, 148, 0] None)
     = Inl (TrezorException ''Reached end of operations without a signature.'')
   \<and> operations_after (sign_tx (recording scripted)
             ([Inr StellarTxOpRequest, Inl (IndexError ''list index out of range'')], [])
             new_StellarSignTx
             [StellarBumpSequenceOp None (Some 7), StellarAccountMergeOp None (Some ''GA'')]
             [44, 148, 0] None)
     = [StellarAccountMergeOp None (Some ''GA'')]
   \<and> map snd (snd (client_after (sign_tx (recording scripted)
             ([Inr StellarTxOpRequest, Inl (IndexError ''list index out of range'')], [])
             new_StellarSignTx
             [StellarBumpSequenceOp None (Some 7), StellarAccountMergeOp None (Some ''GA'')]
             [44, 148, 0] None)))
     = [Inr StellarTxOpRequest, Inl (IndexError ''list index out of range'')]
   \<and> result (sign_tx (recording scripted)
             ([Inr StellarTxOpRequest, Inr StellarTxOpRequest, Inr StellarTxOpRequest], [])
             new_StellarSignTx
             [StellarBumpSequenceOp None (Some 7), StellarAccountMergeOp None (Some ''GA'')]
             [44, 148, 0] None)
     = Inl (TrezorException ''Reached end of operations without a signature.'')
   \<and> operations_after (sign_tx (recording scripted)
             ([Inr StellarTxOpRequest, Inr StellarTxOpRequest, Inr StellarTxOpRequest], [])
             new_StellarSignTx
             [StellarBumpSequenceOp None (Some 7), StellarAccountMergeOp None (Some ''GA'')]
             [44, 148, 0] None)
     = []
   \<and> map snd (snd (client_after (sign_tx (recording scripted)
             ([Inr StellarTxOpRequest, Inr StellarTxOpRequest, Inr StellarTxOpRequest], [])
             new_StellarSignTx
             [StellarBumpSequenceOp None (Some 7), StellarAccountMergeOp None (Some ''GA'')]
             [44, 148, 0] None)))
     = [Inr StellarTxOpRequest, Inr StellarTxOpRequest, Inr StellarTxOpRequest]"
  by (simp add: sign_tx_def recording_def scripted_def Let_def)

subsection \<open>The header\<close>

text \<open>
  Claim C9. \<open>sign_tx\<close> overwrites \<open>network_passphrase\<close>, \<open>address_n\<close> and
  \<open>num_operations\<close> of the caller's header (\<open>num_operations\<close> with the length of the
  operations list, whatever it held) and leaves every other field as it was; the
  header is updated before the first send: the first message sent is the updated
  header.
\<close>

theorem sign_tx_mutates_header:
  fixes call :: "'d client_call" and call' :: "'c client_call"
  shows "tx_after (sign_tx call client tx operations addr_n passphrase)
           = tx\<lparr>network_passphrase := passphrase, address_n := addr_n,
                num_operations := Some (int (length operations))\<rparr>
       \<and> (let tx' = tx_after (sign_tx call client tx operations addr_n passphrase)
          in network_passphrase tx' = passphrase
           \<and> address_n tx' = addr_n
           \<and> num_operations tx' = Some (int (length operations))
           \<and> source_account tx' = source_account tx
           \<and> fee tx' = fee tx
           \<and> sequence_number tx' = sequence_number tx
           \<and> timebounds_start tx' = timebounds_start tx
           \<and> timebounds_end tx' = timebounds_end tx
           \<and> memo_type tx' = memo_type tx
           \<and> memo_text tx' = memo_text tx
           \<and> memo_id tx' = memo_id tx
           \<and> memo_hash tx' = memo_hash tx)
       \<and> fst (hd (snd (client_after
            (sign_tx (recording call') (client', []) tx operations addr_n passphrase))))
           = StellarSignTx (tx\<lparr>network_passphrase := passphrase, address_n := addr_n,
                               num_operations := Some (int (length operations))\<rparr>)"
proof -
  have after: "tx_after (sign_tx call client tx operations addr_n passphrase)
           = tx\<lparr>network_passphrase := passphrase, address_n := addr_n,
                num_operations := Some (int (length operations))\<rparr>"
    by (simp add: sign_tx_def Let_def split: prod.splits sum.splits)
  from sign_tx_recording [OF refl, of call' client' tx operations addr_n passphrase]
  have "fst (hd (snd (client_after
            (sign_tx (recording call') (client', []) tx operations addr_n passphrase))))
           = StellarSignTx (tx\<lparr>network_passphrase := passphrase, address_n := addr_n,
                               num_operations := Some (int (length operations))\<rparr>)"
    by auto
  with after show ?thesis
    by (simp add: Let_def)
qed


section \<open>The converter\<close>

lemma map_exn_Inr:
  "map_exn f xs = Inr ys \<Longrightarrow> map Inr ys = map f xs"
proof (induction xs arbitrary: ys)
  case Nil
  then show ?case by simp
next
  case (Cons x xs)
  from Cons.prems obtain y ys' where
    "f x = Inr y" "map_exn f xs = Inr ys'" "ys = y # ys'"
    by (auto simp: bind_exn_def split: sum.splits)
  with Cons.IH show ?case by simp
qed

text \<open>
  Claim C10. For every envelope \<open>from_envelope\<close> accepts, the header and the operations
  list it returns agree: \<open>num_operations\<close> of the header is the length of the returned
  list, and the returned operations are the envelope's operations converted one by one
  by \<open>_read_operation\<close>, in the envelope's order.
\<close>

theorem from_envelope_consistent:
  assumes "from_envelope sdk (TransactionEnvelope
             (Transaction source fee' sequence time_bounds memo operations)) = Inr (tx, ops)"
  shows "num_operations tx = Some (int (length ops))
       \<and> length ops = length operations
       \<and> map Inr ops = map (read_operation sdk) operations"
proof -
  obtain account_id where source: "source = MuxedAccount account_id"
    by (cases source)
  from assms source obtain tx0 where
    tx: "tx = tx0\<lparr>num_operations := Some (int (length operations))\<rparr>"
    and ops: "map_exn (read_operation sdk) operations = Inr ops"
    by (auto simp: bind_exn_def Let_def split: if_splits sum.splits)
  from map_exn_Inr [OF ops] have m: "map Inr ops = map (read_operation sdk) operations" .
  then have "length (map Inr ops :: (exn + message) list)
               = length (map (read_operation sdk) operations)"
    by simp
  then have "length ops = length operations" by simp
  with tx m show ?thesis by simp
qed

theorem from_envelope_consistent_witness:
  "num_operations
     (new_StellarSignTx\<lparr>source_account := Some ''GA'', fee := Some 200,
        sequence_number := Some 5, memo_type := Some MEMO_TYPE_ID, memo_id := Some 9,
        num_operations := Some 2\<rparr>)
     = Some (int (length
         [StellarPaymentOp None (Some ''GB'')
            (Some (StellarAssetType (Some ASSET_TYPE_NATIVE) None None)) (Some 15000000),
          StellarBumpSequenceOp (Some ''GC'') (Some 77)]))
   \<and> length
         [StellarPaymentOp None (Some ''GB'')
            (Some (StellarAssetType (Some ASSET_TYPE_NATIVE) None None)) (Some 15000000),
          StellarBumpSequenceOp (Some ''GC'') (Some 77)]
     = length
         [Payment None (MuxedAccount ''GB'') (Asset ''XLM'' None) ''1.5'',
          BumpSequence (Some (MuxedAccount ''GC'')) 77]
   \<and> map Inr
         [StellarPaymentOp None (Some ''GB'')
            (Some (StellarAssetType (Some ASSET_TYPE_NATIVE) None None)) (Some 15000000),
          StellarBumpSequenceOp (Some ''GC'') (Some 77)]
     = map (read_operation test_sdk)
         [Payment None (MuxedAccount ''GB'') (Asset ''XLM'' None) ''1.5'',
          BumpSequence (Some (MuxedAccount ''GC'')) 77]"
  by (rule from_envelope_consistent
        [where sdk = test_sdk and source = "MuxedAccount ''GA''" and fee' = 200
           and sequence = 5 and time_bounds = None and memo = "IdMemo 9"])
     (simp add: test_sdk_def bind_exn_def read_amount_def Let_def)


end
